theory Spec2Isabelle
  imports Main
begin

section \<open>Text primitives of the host language\<close>

text \<open>
  A text is a sequence of code points. The model takes \<^typ>\<open>string\<close>, whose characters
  are the code points 0 to 255, and writes out on that range what the three primitives
  used by \<^verbatim>\<open>translation_service.py\<close> do: \<^verbatim>\<open>str.strip\<close> and the
  regular-expression class \<^verbatim>\<open>\s\<close> share one whitespace test, \<^verbatim>\<open>str.isdigit\<close>
  accepts the decimal digits and the three superscript digits, and \<^verbatim>\<open>str.lower\<close>
  maps the upper-case letters of that range to their lower-case partners.
\<close>

definition isspace :: "char \<Rightarrow> bool" where
  "isspace c =
     (let n = (of_char c :: nat)
      in (9 \<le> n \<and> n \<le> 13) \<or> (28 \<le> n \<and> n \<le> 32) \<or> n = 133 \<or> n = 160)"

definition isdigit_char :: "char \<Rightarrow> bool" where
  "isdigit_char c =
     (let n = (of_char c :: nat)
      in (48 \<le> n \<and> n \<le> 57) \<or> n = 178 \<or> n = 179 \<or> n = 185)"

definition isdigit :: "string \<Rightarrow> bool" where
  \<comment> \<open>\<^verbatim>\<open>str.isdigit\<close>: false on the empty string.\<close>
  "isdigit s = (s \<noteq> [] \<and> list_all isdigit_char s)"

definition lower_char :: "char \<Rightarrow> char" where
  "lower_char c =
     (let n = (of_char c :: nat)
      in if (65 \<le> n \<and> n \<le> 90) \<or> (192 \<le> n \<and> n \<le> 222 \<and> n \<noteq> 215)
         then char_of (n + 32) else c)"

definition lower :: "string \<Rightarrow> string" where
  "lower s = map lower_char s"

definition strip :: "string \<Rightarrow> string" where
  "strip s = rev (dropWhile isspace (rev (dropWhile isspace s)))"

text \<open>
  \<^verbatim>\<open>re.sub(r'[...]+', '', text)\<close>: scanning from the left, a maximal run of
  characters of the class is replaced by the empty string, any other character is kept.
\<close>

function re_sub_class :: "(char \<Rightarrow> bool) \<Rightarrow> string \<Rightarrow> string" where
  "re_sub_class p [] = []"
| "re_sub_class p (c # cs) =
     (if p c then re_sub_class p (dropWhile p cs) else c # re_sub_class p cs)"
  by pat_completeness auto
termination
  by (relation "measure (\<lambda>(p, s). length s)")
     (auto simp: length_dropWhile_le less_Suc_eq_le)


section \<open>Effects: exceptions and calls to the external collaborators\<close>

text \<open>
  Every handler of the module is \<^verbatim>\<open>except Exception\<close>; \<open>exn\<close> stands for the
  exceptions of that class, with their message.
\<close>

datatype exn = Exception string

text \<open>
  The module owns no state. What it does beyond returning a value is to call its
  collaborators, so a computation yields the calls it made, in order, together with
  either the exception it raised or the value it returned.
\<close>

datatype call =
    CallDetect string
  | CallTranslate string string string
  | CallChatDetect string
  | CallChatTranslate string string string
  | CallLastLanguage string

type_synonym 'a comp = "call list \<times> (exn + 'a)"

definition calls :: "'a comp \<Rightarrow> call list" where
  "calls m = fst m"

definition outcome :: "'a comp \<Rightarrow> exn + 'a" where
  "outcome m = snd m"

definition ret :: "'a \<Rightarrow> 'a comp" where
  "ret v = ([], Inr v)"

definition invoke :: "call \<Rightarrow> (exn + 'a) \<Rightarrow> 'a comp" where
  \<comment> \<open>one call of a collaborator, with what it answered\<close>
  "invoke c r = ([c], r)"

definition bind :: "'a comp \<Rightarrow> ('a \<Rightarrow> 'b comp) \<Rightarrow> 'b comp" where
  "bind m f =
     (case m of
        (l, Inl e) \<Rightarrow> (l, Inl e)
      | (l, Inr v) \<Rightarrow> (case f v of (l', r) \<Rightarrow> (l @ l', r)))"

definition try_except :: "'a comp \<Rightarrow> (exn \<Rightarrow> 'a comp) \<Rightarrow> 'a comp" where
  "try_except m h =
     (case m of
        (l, Inl e) \<Rightarrow> (case h e of (l', r) \<Rightarrow> (l @ l', r))
      | (l, Inr v) \<Rightarrow> (l, Inr v))"


section \<open>The service and its collaborators\<close>

text \<open>
  The chat-completion client is called with a prompt that the module builds from the text
  (language detection) or from the text and the two language codes (translation), with
  fixed model and decoding parameters. Its answer is therefore a function of those
  arguments; \<open>Inl\<close> covers an exception of the request as well as one raised while
  reading \<^verbatim>\<open>response.choices[0].message.content\<close>, both inside the same
  \<^verbatim>\<open>try\<close>.
\<close>

record OpenAI =
  chat_detect :: "string \<Rightarrow> exn + string"
  chat_translate :: "string \<Rightarrow> string \<Rightarrow> string \<Rightarrow> exn + string"

text \<open>
  \<open>detect\<close> is the statistical detector and \<open>LANGUAGES\<close> the supported-language
  mapping, both imported by the module; \<open>translator\<close> answers
  \<^verbatim>\<open>translate(text, src=..., dest=...).text\<close>.
\<close>

record TranslationService =
  detect :: "string \<Rightarrow> exn + string"
  LANGUAGES :: "string \<rightharpoonup> string"
  translator :: "string \<Rightarrow> string \<Rightarrow> string \<Rightarrow> exn + string"
  openai_client :: "OpenAI option"
  use_llm :: bool


section \<open>The operations\<close>

definition supported :: "TranslationService \<Rightarrow> string \<Rightarrow> bool" where
  \<comment> \<open>\<^verbatim>\<open>code in LANGUAGES\<close>\<close>
  "supported s code = (LANGUAGES s code \<noteq> None)"

definition fallback_detection :: "TranslationService \<Rightarrow> string \<Rightarrow> string comp" where
  "fallback_detection s text =
     try_except
       (bind (invoke (CallDetect text) (detect s text))
          (\<lambda>detected. if supported s detected then ret detected else ret ''en''))
       (\<lambda>e. ret ''en'')"

definition detect_language_with_llm :: "TranslationService \<Rightarrow> string \<Rightarrow> string comp" where
  "detect_language_with_llm s text =
     (case openai_client s of
        None \<Rightarrow> fallback_detection s text
      | Some client \<Rightarrow>
          if \<not> use_llm s then fallback_detection s text
          else
            try_except
              (bind (invoke (CallChatDetect text) (chat_detect client text))
                 (\<lambda>content.
                    let detected_lang = lower (strip content)
                    in if supported s detected_lang \<or> detected_lang = ''ur''
                       then ret detected_lang
                       else fallback_detection s text))
              (\<lambda>e. fallback_detection s text))"

definition unquote :: "string \<Rightarrow> string" where
  \<comment> \<open>\<^verbatim>\<open>if t.startswith('"') and t.endswith('"'): t = t[1:-1]\<close>\<close>
  "unquote t =
     (if t \<noteq> [] \<and> hd t = CHR 0x22 \<and> last t = CHR 0x22 then butlast (tl t) else t)"

definition translate_with_google ::
  "TranslationService \<Rightarrow> string \<Rightarrow> string \<Rightarrow> string \<Rightarrow> string comp" where
  "translate_with_google s text source_lang target_lang =
     try_except
       (invoke (CallTranslate text source_lang target_lang)
          (translator s text source_lang target_lang))
       (\<lambda>e. ret text)"

definition translate_with_llm ::
  "TranslationService \<Rightarrow> string \<Rightarrow> string \<Rightarrow> string \<Rightarrow> string comp" where
  "translate_with_llm s text source_lang target_lang =
     (case openai_client s of
        None \<Rightarrow> translate_with_google s text source_lang target_lang
      | Some client \<Rightarrow>
          if \<not> use_llm s then translate_with_google s text source_lang target_lang
          else
            try_except
              (bind (invoke (CallChatTranslate text source_lang target_lang)
                       (chat_translate client text source_lang target_lang))
                 (\<lambda>content. ret (unquote (strip content))))
              (\<lambda>e. translate_with_google s text source_lang target_lang))"

definition removed_char :: "char \<Rightarrow> bool" where
  \<comment> \<open>the class \<^verbatim>\<open>[\s\-\.\,\(\)\/]\<close>\<close>
  "removed_char c =
     (isspace c \<or> c = CHR ''-'' \<or> c = CHR ''.'' \<or> c = CHR '','' \<or> c = CHR ''(''
      \<or> c = CHR '')'' \<or> c = CHR ''/'')"

definition is_number_only_text :: "string \<Rightarrow> bool" where
  "is_number_only_text text =
     (let clean_text = re_sub_class removed_char text
      in isdigit clean_text \<and> length clean_text > 0)"

definition translate_to_english :: "TranslationService \<Rightarrow> string \<Rightarrow> string \<Rightarrow> string comp" where
  "translate_to_english s text source_lang =
     try_except
       (if source_lang = ''en'' then ret text
        else if is_number_only_text text then ret text
        else if use_llm s \<and> source_lang = ''ur''
          then translate_with_llm s text source_lang ''en''
          else translate_with_google s text source_lang ''en'')
       (\<lambda>e. ret text)"

definition translate_from_english :: "TranslationService \<Rightarrow> string \<Rightarrow> string \<Rightarrow> string comp" where
  "translate_from_english s text target_lang =
     try_except
       (if target_lang = ''en'' then ret text
        else if use_llm s \<and> target_lang = ''ur''
          then translate_with_llm s text ''en'' target_lang
          else translate_with_google s text ''en'' target_lang)
       (\<lambda>e. ret text)"

text \<open>
  \<^verbatim>\<open>if sender_id and get_last_language_func\<close>: an absent or empty sender identifier
  is false, and so is an absent accessor. When the test holds, the accessor to call is
  returned with the identifier.
\<close>

definition session_context ::
  "string option \<Rightarrow> (string \<Rightarrow> exn + string) option \<Rightarrow> (string \<times> (string \<Rightarrow> exn + string)) option"
where
  "session_context sender_id get_last_language_func =
     (case sender_id of
        None \<Rightarrow> None
      | Some sid \<Rightarrow>
          if sid = [] then None
          else (case get_last_language_func of None \<Rightarrow> None | Some g \<Rightarrow> Some (sid, g)))"

definition detect_language_smart_body ::
  "TranslationService \<Rightarrow> string \<Rightarrow> string option \<Rightarrow> (string \<Rightarrow> exn + string) option
     \<Rightarrow> string comp"
where
  \<comment> \<open>the statements inside the \<^verbatim>\<open>try\<close> of \<^verbatim>\<open>detect_language_smart\<close>\<close>
  "detect_language_smart_body s text sender_id get_last_language_func =
     (if length (strip text) < 3 then
        (case session_context sender_id get_last_language_func of
           Some (sid, g) \<Rightarrow>
             bind (invoke (CallLastLanguage sid) (g sid))
               (\<lambda>last_lang. if last_lang \<noteq> ''en'' then ret last_lang else ret ''en'')
         | None \<Rightarrow> ret ''en'')
      else if is_number_only_text text then
        (case session_context sender_id get_last_language_func of
           Some (sid, g) \<Rightarrow> bind (invoke (CallLastLanguage sid) (g sid)) ret
         | None \<Rightarrow> ret ''en'')
      else
        bind (if use_llm s then detect_language_with_llm s text
              else fallback_detection s text)
          (\<lambda>detected. if supported s detected \<or> detected = ''ur'' then ret detected
                       else ret ''en''))"

definition detect_language_smart ::
  "TranslationService \<Rightarrow> string \<Rightarrow> string option \<Rightarrow> (string \<Rightarrow> exn + string) option
     \<Rightarrow> string comp"
where
  "detect_language_smart s text sender_id get_last_language_func =
     try_except
       (detect_language_smart_body s text sender_id get_last_language_func)
       (\<lambda>e. ret ''en'')"


section \<open>The specification's wording, and example collaborators\<close>

text \<open>
  The number-only rule as the specification words it: remove every whitespace character
  and every hyphen, period, comma, parenthesis and slash; what is left must be non-empty
  and consist of digits only.
\<close>

definition spec_number_only :: "string \<Rightarrow> bool" where
  "spec_number_only t =
     (let rest = filter (\<lambda>c. \<not> (isspace c \<or> c \<in> set ''-.,()/'')) t
      in rest \<noteq> [] \<and> list_all isdigit_char rest)"

text \<open>The number of non-whitespace characters of a text, as the short-text rule words it.\<close>

definition non_whitespace_count :: "string \<Rightarrow> nat" where
  "non_whitespace_count t = length (filter (\<lambda>c. \<not> isspace c) t)"

text \<open>Concrete collaborators, on which the theorems below are instantiated.\<close>

definition example_languages :: "string \<rightharpoonup> string" where
  "example_languages =
     map_of [(''en'', ''english''), (''de'', ''german''), (''fr'', ''french''),
             (''ur'', ''urdu'')]"

definition fallback_only :: TranslationService where
  \<comment> \<open>no API key: the service as \<^verbatim>\<open>__init__\<close> leaves it without a client\<close>
  "fallback_only =
     \<lparr> detect = (\<lambda>t. Inr ''de''),
       LANGUAGES = example_languages,
       translator = (\<lambda>t src dst. Inr ''cent vingt-trois''),
       openai_client = None,
       use_llm = False \<rparr>"

definition failing_client :: OpenAI where
  "failing_client =
     \<lparr> chat_detect = (\<lambda>t. Inl (Exception ''timeout'')),
       chat_translate = (\<lambda>t src dst. Inl (Exception ''timeout'')) \<rparr>"

definition llm_down :: TranslationService where
  \<comment> \<open>a configured client whose requests fail, with working fallbacks\<close>
  "llm_down =
     \<lparr> detect = (\<lambda>t. Inr ''fr''),
       LANGUAGES = example_languages,
       translator = (\<lambda>t src dst. Inr ''what is my balance''),
       openai_client = Some failing_client,
       use_llm = True \<rparr>"

definition all_down :: TranslationService where
  \<comment> \<open>every collaborator raises\<close>
  "all_down =
     \<lparr> detect = (\<lambda>t. Inl (Exception ''no features in text'')),
       LANGUAGES = example_languages,
       translator = (\<lambda>t src dst. Inl (Exception ''connection refused'')),
       openai_client = Some failing_client,
       use_llm = True \<rparr>"

definition answering_client :: OpenAI where
  "answering_client =
     \<lparr> chat_detect =
         (\<lambda>t. if t = ''mera balance kya hai'' then Inr '' UR '' else Inr ''xx''),
       chat_translate = (\<lambda>t src dst. Inr [CHR 0x22, CHR ''o'', CHR ''k'', CHR 0x22]) \<rparr>"

definition llm_up :: TranslationService where
  "llm_up =
     \<lparr> detect = (\<lambda>t. Inr ''fr''),
       LANGUAGES = example_languages,
       translator = (\<lambda>t src dst. Inr ''bonjour''),
       openai_client = Some answering_client,
       use_llm = True \<rparr>"

definition api_down :: TranslationService where
  \<comment> \<open>a translation API that raises, beside a detector and an LLM client that answer\<close>
  "api_down =
     \<lparr> detect = (\<lambda>t. Inr ''de''),
       LANGUAGES = example_languages,
       translator = (\<lambda>t src dst. Inl (Exception ''connection refused'')),
       openai_client = Some answering_client,
       use_llm = True \<rparr>"

definition failing_accessor :: "string \<Rightarrow> exn + string" where
  "failing_accessor sid = Inl (Exception ''session store unavailable'')"

definition unsupported_accessor :: "string \<Rightarrow> exn + string" where
  \<comment> \<open>a last-language store holding a code that is neither supported nor \<open>ur\<close>\<close>
  "unsupported_accessor sid = Inr ''xx''"


section \<open>Basic facts\<close>

lemmas comp_defs = calls_def outcome_def ret_def invoke_def bind_def try_except_def

lemma filter_dropWhile_class:
  "filter (\<lambda>c. \<not> p c) (dropWhile p cs) = filter (\<lambda>c. \<not> p c) cs"
  by (induction cs) auto

text \<open>Removing the maximal runs of a character class removes exactly its characters.\<close>

lemma re_sub_class_filter: "re_sub_class p s = filter (\<lambda>c. \<not> p c) s"
proof (induction p s rule: re_sub_class.induct)
  case (1 p)
  show ?case by simp
next
  case (2 p c cs)
  show ?case
  proof (cases "p c")
    case True
    with "2.IH"(1) show ?thesis by (simp add: filter_dropWhile_class)
  next
    case False
    with "2.IH"(2) show ?thesis by simp
  qed
qed

lemma removed_char_spec: "removed_char c = (isspace c \<or> c \<in> set ''-.,()/'')"
  by (auto simp: removed_char_def)

lemmas text_defs = is_number_only_text_def re_sub_class_filter removed_char_def isspace_def
  isdigit_def isdigit_char_def strip_def lower_def lower_char_def unquote_def
  non_whitespace_count_def

lemma fallback_detection_eq:
  "fallback_detection s text =
     ([CallDetect text],
      Inr (case detect s text of
             Inl e \<Rightarrow> ''en''
           | Inr detected \<Rightarrow> if supported s detected then detected else ''en''))"
  by (simp add: fallback_detection_def comp_defs split: sum.splits)

lemma translate_with_google_eq:
  "translate_with_google s text src dst =
     ([CallTranslate text src dst],
      Inr (case translator s text src dst of Inl e \<Rightarrow> text | Inr translated \<Rightarrow> translated))"
  by (simp add: translate_with_google_def comp_defs split: sum.splits)

lemma try_except_returns: "\<exists>r. outcome (try_except m (\<lambda>e. ret d)) = Inr r"
  by (cases m) (simp add: comp_defs split: sum.splits)

lemma detect_language_smart_returns:
  "\<exists>r. outcome (detect_language_smart s text sender_id f) = Inr r"
  unfolding detect_language_smart_def by (rule try_except_returns)

lemma translate_to_english_returns:
  "\<exists>r. outcome (translate_to_english s text src) = Inr r"
  unfolding translate_to_english_def by (rule try_except_returns)

lemma translate_from_english_returns:
  "\<exists>r. outcome (translate_from_english s text tgt) = Inr r"
  unfolding translate_from_english_def by (rule try_except_returns)

text \<open>The inner operations absorb exceptions as well.\<close>

lemma detect_language_with_llm_returns:
  "\<exists>r. outcome (detect_language_with_llm s text) = Inr r"
  by (simp add: detect_language_with_llm_def fallback_detection_eq comp_defs Let_def
           split: option.splits sum.splits)

lemma translate_with_llm_returns:
  "\<exists>r. outcome (translate_with_llm s text src dst) = Inr r"
  by (simp add: translate_with_llm_def translate_with_google_eq comp_defs
           split: option.splits sum.splits)

text \<open>
  What an exception of each collaborator leads to, when the operation calls it. A call is
  made exactly when it is listed among the calls of the operation.
\<close>

lemma detect_language_smart_accessor_raises:
  assumes "session_context sender_id f = Some (i, g)"
    and "CallLastLanguage i \<in> set (calls (detect_language_smart s t sender_id f))"
    and "isl (g i)"
  shows "outcome (detect_language_smart s t sender_id f) = Inr ''en''"
  using assms
  by (auto simp: detect_language_smart_def detect_language_smart_body_def
        detect_language_with_llm_def fallback_detection_eq comp_defs isl_def Let_def
      split: option.splits sum.splits if_splits)

lemma detect_language_smart_detector_raises:
  assumes "CallDetect t \<in> set (calls (detect_language_smart s t sender_id f))"
    and "isl (detect s t)"
  shows "outcome (detect_language_smart s t sender_id f) = Inr ''en''"
  using assms
  by (auto simp: detect_language_smart_def detect_language_smart_body_def
        detect_language_with_llm_def fallback_detection_eq comp_defs isl_def Let_def
      split: option.splits sum.splits if_splits prod.splits)

lemma detect_language_smart_llm_raises:
  assumes "openai_client s = Some c"
    and "CallChatDetect t \<in> set (calls (detect_language_smart s t sender_id f))"
    and "isl (chat_detect c t)"
  shows "detect_language_smart s t sender_id f =
           (CallChatDetect t # calls (fallback_detection s t),
            outcome (fallback_detection s t))"
  using assms
  by (auto simp: detect_language_smart_def detect_language_smart_body_def
        detect_language_with_llm_def fallback_detection_eq comp_defs isl_def Let_def
      split: option.splits sum.splits if_splits prod.splits)

lemma translate_to_english_api_raises:
  assumes "CallTranslate t src ''en'' \<in> set (calls (translate_to_english s t src))"
    and "isl (translator s t src ''en'')"
  shows "outcome (translate_to_english s t src) = Inr t"
  using assms
  by (auto simp: translate_to_english_def translate_with_llm_def translate_with_google_eq
        comp_defs isl_def split: option.splits sum.splits if_splits)

lemma translate_to_english_llm_raises:
  assumes "openai_client s = Some c"
    and "CallChatTranslate t src ''en'' \<in> set (calls (translate_to_english s t src))"
    and "isl (chat_translate c t src ''en'')"
  shows "translate_to_english s t src =
           (CallChatTranslate t src ''en'' # calls (translate_with_google s t src ''en''),
            outcome (translate_with_google s t src ''en''))"
  using assms
  by (auto simp: translate_to_english_def translate_with_llm_def translate_with_google_eq
        comp_defs isl_def split: option.splits sum.splits if_splits)

lemma translate_from_english_api_raises:
  assumes "CallTranslate t ''en'' tgt \<in> set (calls (translate_from_english s t tgt))"
    and "isl (translator s t ''en'' tgt)"
  shows "outcome (translate_from_english s t tgt) = Inr t"
  using assms
  by (auto simp: translate_from_english_def translate_with_llm_def translate_with_google_eq
        comp_defs isl_def split: option.splits sum.splits if_splits)

lemma translate_from_english_llm_raises:
  assumes "openai_client s = Some c"
    and "CallChatTranslate t ''en'' tgt \<in> set (calls (translate_from_english s t tgt))"
    and "isl (chat_translate c t ''en'' tgt)"
  shows "translate_from_english s t tgt =
           (CallChatTranslate t ''en'' tgt # calls (translate_with_google s t ''en'' tgt),
            outcome (translate_with_google s t ''en'' tgt))"
  using assms
  by (auto simp: translate_from_english_def translate_with_llm_def translate_with_google_eq
        comp_defs isl_def split: option.splits sum.splits if_splits)


section \<open>The claims\<close>

text \<open>
  C1 (amended). Whatever the statistical detector, the translation API, the LLM client
  and the last-language accessor do, raising included, \<open>detect_language_smart\<close>,
  \<open>translate_to_english\<close> and \<open>translate_from_english\<close> return a value and never
  raise. An exception of the accessor or of the statistical detector, when the operation
  calls it, makes \<open>detect_language_smart\<close> return \<open>en\<close>; an exception of the
  translation API, when the operation calls it, makes the translate function return the
  input text. An exception of the LLM call is not final: the operation then calls the
  fallback detector, respectively the translation API, and returns what
  \<open>fallback_detection\<close>, respectively \<open>translate_with_google\<close>, returns.
\<close>

theorem exceptions_are_absorbed:
  "(\<exists>r. outcome (detect_language_smart s t sender_id f) = Inr r) \<and>
   (\<exists>r. outcome (translate_to_english s t src) = Inr r) \<and>
   (\<exists>r. outcome (translate_from_english s t tgt) = Inr r) \<and>
   (session_context sender_id f = Some (i, g) \<and>
    CallLastLanguage i \<in> set (calls (detect_language_smart s t sender_id f)) \<and> isl (g i)
      \<longrightarrow> outcome (detect_language_smart s t sender_id f) = Inr ''en'') \<and>
   (CallDetect t \<in> set (calls (detect_language_smart s t sender_id f)) \<and> isl (detect s t)
      \<longrightarrow> outcome (detect_language_smart s t sender_id f) = Inr ''en'') \<and>
   (openai_client s = Some c \<and>
    CallChatDetect t \<in> set (calls (detect_language_smart s t sender_id f)) \<and>
    isl (chat_detect c t)
      \<longrightarrow> detect_language_smart s t sender_id f =
            (CallChatDetect t # calls (fallback_detection s t),
             outcome (fallback_detection s t))) \<and>
   (CallTranslate t src ''en'' \<in> set (calls (translate_to_english s t src)) \<and>
    isl (translator s t src ''en'')
      \<longrightarrow> outcome (translate_to_english s t src) = Inr t) \<and>
   (openai_client s = Some c \<and>
    CallChatTranslate t src ''en'' \<in> set (calls (translate_to_english s t src)) \<and>
    isl (chat_translate c t src ''en'')
      \<longrightarrow> translate_to_english s t src =
            (CallChatTranslate t src ''en'' # calls (translate_with_google s t src ''en''),
             outcome (translate_with_google s t src ''en''))) \<and>
   (CallTranslate t ''en'' tgt \<in> set (calls (translate_from_english s t tgt)) \<and>
    isl (translator s t ''en'' tgt)
      \<longrightarrow> outcome (translate_from_english s t tgt) = Inr t) \<and>
   (openai_client s = Some c \<and>
    CallChatTranslate t ''en'' tgt \<in> set (calls (translate_from_english s t tgt)) \<and>
    isl (chat_translate c t ''en'' tgt)
      \<longrightarrow> translate_from_english s t tgt =
            (CallChatTranslate t ''en'' tgt # calls (translate_with_google s t ''en'' tgt),
             outcome (translate_with_google s t ''en'' tgt)))"
proof (intro conjI impI)
  show "\<exists>r. outcome (detect_language_smart s t sender_id f) = Inr r"
    by (rule detect_language_smart_returns)
  show "\<exists>r. outcome (translate_to_english s t src) = Inr r"
    by (rule translate_to_english_returns)
  show "\<exists>r. outcome (translate_from_english s t tgt) = Inr r"
    by (rule translate_from_english_returns)
next
  assume "session_context sender_id f = Some (i, g) \<and>
    CallLastLanguage i \<in> set (calls (detect_language_smart s t sender_id f)) \<and> isl (g i)"
  then show "outcome (detect_language_smart s t sender_id f) = Inr ''en''"
    using detect_language_smart_accessor_raises by blast
next
  assume "CallDetect t \<in> set (calls (detect_language_smart s t sender_id f)) \<and>
    isl (detect s t)"
  then show "outcome (detect_language_smart s t sender_id f) = Inr ''en''"
    using detect_language_smart_detector_raises by blast
next
  assume "openai_client s = Some c \<and>
    CallChatDetect t \<in> set (calls (detect_language_smart s t sender_id f)) \<and>
    isl (chat_detect c t)"
  then show "detect_language_smart s t sender_id f =
      (CallChatDetect t # calls (fallback_detection s t), outcome (fallback_detection s t))"
    using detect_language_smart_llm_raises by blast
next
  assume "CallTranslate t src ''en'' \<in> set (calls (translate_to_english s t src)) \<and>
    isl (translator s t src ''en'')"
  then show "outcome (translate_to_english s t src) = Inr t"
    using translate_to_english_api_raises by blast
next
  assume "openai_client s = Some c \<and>
    CallChatTranslate t src ''en'' \<in> set (calls (translate_to_english s t src)) \<and>
    isl (chat_translate c t src ''en'')"
  then show "translate_to_english s t src =
      (CallChatTranslate t src ''en'' # calls (translate_with_google s t src ''en''),
       outcome (translate_with_google s t src ''en''))"
    using translate_to_english_llm_raises by blast
next
  assume "CallTranslate t ''en'' tgt \<in> set (calls (translate_from_english s t tgt)) \<and>
    isl (translator s t ''en'' tgt)"
  then show "outcome (translate_from_english s t tgt) = Inr t"
    using translate_from_english_api_raises by blast
next
  assume "openai_client s = Some c \<and>
    CallChatTranslate t ''en'' tgt \<in> set (calls (translate_from_english s t tgt)) \<and>
    isl (chat_translate c t ''en'' tgt)"
  then show "translate_from_english s t tgt =
      (CallChatTranslate t ''en'' tgt # calls (translate_with_google s t ''en'' tgt),
       outcome (translate_with_google s t ''en'' tgt))"
    using translate_from_english_llm_raises by blast
qed

text \<open>
  Four situations: only the accessor raises; only the translation API raises, beside an
  LLM client that answers and is not asked; only the LLM client raises; every collaborator
  raises.
\<close>

theorem exceptions_are_absorbed_witness:
  "session_context (Some ''u1'') (Some failing_accessor) = Some (''u1'', failing_accessor) \<and>
   isl (failing_accessor ''u1'') \<and>
   detect_language_smart fallback_only ''ok'' (Some ''u1'') (Some failing_accessor)
     = ([CallLastLanguage ''u1''], Inr ''en'') \<and>
   isl (translator api_down ''guten Tag'' ''de'' ''en'') \<and>
   isl (translator api_down ''guten Tag'' ''en'' ''de'') \<and>
   translate_to_english api_down ''guten Tag'' ''de''
     = ([CallTranslate ''guten Tag'' ''de'' ''en''], Inr ''guten Tag'') \<and>
   translate_from_english api_down ''guten Tag'' ''de''
     = ([CallTranslate ''guten Tag'' ''en'' ''de''], Inr ''guten Tag'') \<and>
   openai_client llm_down = Some failing_client \<and>
   isl (chat_detect failing_client ''kya haal hai'') \<and>
   isl (chat_translate failing_client ''kya haal hai'' ''ur'' ''en'') \<and>
   isl (chat_translate failing_client ''kya haal hai'' ''en'' ''ur'') \<and>
   detect_language_smart llm_down ''kya haal hai'' None None
     = ([CallChatDetect ''kya haal hai'', CallDetect ''kya haal hai''], Inr ''fr'') \<and>
   translate_to_english llm_down ''kya haal hai'' ''ur''
     = ([CallChatTranslate ''kya haal hai'' ''ur'' ''en'',
         CallTranslate ''kya haal hai'' ''ur'' ''en''], Inr ''what is my balance'') \<and>
   translate_from_english llm_down ''kya haal hai'' ''ur''
     = ([CallChatTranslate ''kya haal hai'' ''en'' ''ur'',
         CallTranslate ''kya haal hai'' ''en'' ''ur''], Inr ''what is my balance'') \<and>
   openai_client all_down = Some failing_client \<and>
   isl (detect all_down ''kya haal hai'') \<and>
   isl (translator all_down ''kya haal hai'' ''ur'' ''en'') \<and>
   isl (translator all_down ''kya haal hai'' ''en'' ''ur'') \<and>
   detect_language_smart all_down ''kya haal hai'' None None
     = ([CallChatDetect ''kya haal hai'', CallDetect ''kya haal hai''], Inr ''en'') \<and>
   translate_to_english all_down ''kya haal hai'' ''ur''
     = ([CallChatTranslate ''kya haal hai'' ''ur'' ''en'',
         CallTranslate ''kya haal hai'' ''ur'' ''en''], Inr ''kya haal hai'') \<and>
   translate_from_english all_down ''kya haal hai'' ''ur''
     = ([CallChatTranslate ''kya haal hai'' ''en'' ''ur'',
         CallTranslate ''kya haal hai'' ''en'' ''ur''], Inr ''kya haal hai'')"
  using exceptions_are_absorbed
      [where s = fallback_only and t = "''ok''" and sender_id = "Some ''u1''"
         and f = "Some failing_accessor" and i = "''u1''" and g = failing_accessor
         and src = "''de''" and tgt = "''de''" and c = failing_client]
    exceptions_are_absorbed
      [where s = api_down and t = "''guten Tag''" and sender_id = None and f = None
         and i = "''u1''" and g = failing_accessor
         and src = "''de''" and tgt = "''de''" and c = answering_client]
    exceptions_are_absorbed
      [where s = llm_down and t = "''kya haal hai''" and sender_id = None and f = None
         and i = "''u1''" and g = failing_accessor
         and src = "''ur''" and tgt = "''ur''" and c = failing_client]
    exceptions_are_absorbed
      [where s = all_down and t = "''kya haal hai''" and sender_id = None and f = None
         and i = "''u1''" and g = failing_accessor
         and src = "''ur''" and tgt = "''ur''" and c = failing_client]
  by (simp add: detect_language_smart_def detect_language_smart_body_def
      detect_language_with_llm_def translate_to_english_def translate_from_english_def
      translate_with_llm_def translate_with_google_eq fallback_detection_eq comp_defs
      text_defs session_context_def supported_def example_languages_def
      fallback_only_def api_down_def llm_down_def all_down_def failing_client_def
      answering_client_def failing_accessor_def)

text \<open>
  C1 as stated fails: with a configured LLM client whose request raises and a working
  translation API, \<open>translate_to_english\<close> on an Urdu text returns the API's translation,
  not the input text.
\<close>

theorem llm_exception_yields_fallback_translation:
  "chat_translate failing_client ''mera balance kya hai'' ''ur'' ''en''
     = Inl (Exception ''timeout'') \<and>
   translate_to_english llm_down ''mera balance kya hai'' ''ur'' =
     ([CallChatTranslate ''mera balance kya hai'' ''ur'' ''en'',
       CallTranslate ''mera balance kya hai'' ''ur'' ''en''],
      Inr ''what is my balance'') \<and>
   ''what is my balance'' \<noteq> ''mera balance kya hai''"
  by (simp add: translate_to_english_def translate_with_llm_def translate_with_google_eq
      comp_defs text_defs llm_down_def failing_client_def)

text \<open>
  C2 (amended). With \<open>use_llm\<close> false: for a text of trimmed length at least 3 that is
  not number-only, \<open>detect_language_smart\<close> is \<open>fallback_detection\<close> on that text; for
  a source other than \<open>en\<close> and a text that is not number-only,
  \<open>translate_to_english\<close> is \<open>translate_with_google\<close> towards \<open>en\<close>; for a target
  other than \<open>en\<close>, \<open>translate_from_english\<close> is \<open>translate_with_google\<close> from
  \<open>en\<close>. The equalities hold for the value returned and for the calls made.
\<close>

theorem fallback_mode_equals_fallback_paths:
  "\<not> use_llm s \<Longrightarrow>
   (3 \<le> length (strip t) \<and> \<not> is_number_only_text t
      \<longrightarrow> detect_language_smart s t sender_id f = fallback_detection s t) \<and>
   (src \<noteq> ''en'' \<and> \<not> is_number_only_text t
      \<longrightarrow> translate_to_english s t src = translate_with_google s t src ''en'') \<and>
   (tgt \<noteq> ''en''
      \<longrightarrow> translate_from_english s t tgt = translate_with_google s t ''en'' tgt)"
  by (auto simp: detect_language_smart_def detect_language_smart_body_def
      translate_to_english_def translate_from_english_def
      fallback_detection_eq translate_with_google_eq comp_defs split: sum.splits)

theorem fallback_mode_equals_fallback_paths_witness:
  "\<not> use_llm fallback_only \<and> 3 \<le> length (strip ''guten Tag'') \<and>
   \<not> is_number_only_text ''guten Tag'' \<and> ''de'' \<noteq> ''en'' \<and>
   detect_language_smart fallback_only ''guten Tag'' None None
     = ([CallDetect ''guten Tag''], Inr ''de'') \<and>
   fallback_detection fallback_only ''guten Tag'' = ([CallDetect ''guten Tag''], Inr ''de'') \<and>
   translate_to_english fallback_only ''guten Tag'' ''de''
     = translate_with_google fallback_only ''guten Tag'' ''de'' ''en'' \<and>
   translate_from_english fallback_only ''guten Tag'' ''de''
     = translate_with_google fallback_only ''guten Tag'' ''en'' ''de''"
  using fallback_mode_equals_fallback_paths
    [where s = fallback_only and t = "''guten Tag''" and src = "''de''" and tgt = "''de''"
       and sender_id = None and f = None]
  by (simp add: fallback_only_def text_defs fallback_detection_eq supported_def
      example_languages_def)

text \<open>
  C2 as stated fails on a short text: without an LLM, \<open>detect_language_smart\<close> answers
  \<open>en\<close> for the two-letter text \<open>ja\<close> without calling the detector, while
  \<open>fallback_detection\<close> answers what the detector says.
\<close>

theorem short_text_differs_from_fallback_detection:
  "\<not> use_llm fallback_only \<and>
   detect_language_smart fallback_only ''ja'' None None = ([], Inr ''en'') \<and>
   fallback_detection fallback_only ''ja'' = ([CallDetect ''ja''], Inr ''de'')"
  by (simp add: detect_language_smart_def detect_language_smart_body_def fallback_detection_eq
      comp_defs text_defs fallback_only_def session_context_def supported_def
      example_languages_def)

text \<open>
  C3 (amended). For every text whose length after trimming leading and trailing whitespace
  is below 3, and no usable session context (sender identifier absent or empty, or no
  accessor), \<open>detect_language_smart\<close> returns \<open>en\<close> and calls no detector.
\<close>

theorem short_text_without_context_is_english:
  "length (strip t) < 3 \<Longrightarrow> session_context sender_id f = None \<Longrightarrow>
   detect_language_smart s t sender_id f = ([], Inr ''en'')"
  by (simp add: detect_language_smart_def detect_language_smart_body_def comp_defs)

theorem short_text_without_context_is_english_witness:
  "length (strip ''  hi '') < 3 \<and> session_context None (Some unsupported_accessor) = None \<and>
   detect_language_smart llm_up ''  hi '' None (Some unsupported_accessor) = ([], Inr ''en'')"
  using short_text_without_context_is_english
    [where s = llm_up and t = "''  hi ''" and sender_id = None
       and f = "Some unsupported_accessor"]
  by (simp add: text_defs session_context_def)

text \<open>
  C3 as stated fails: \<open>a b\<close> has two non-whitespace characters, but its trimmed length
  is 3, so the detector runs and its answer is returned.
\<close>

theorem two_letters_with_inner_space_are_detected:
  "non_whitespace_count ''a b'' < 3 \<and>
   detect_language_smart fallback_only ''a b'' None None = ([CallDetect ''a b''], Inr ''de'')"
  by (simp add: detect_language_smart_def detect_language_smart_body_def
      fallback_detection_eq comp_defs text_defs fallback_only_def session_context_def
      supported_def example_languages_def)

text \<open>
  C4. \<open>is_number_only_text\<close> holds exactly when the text, with every whitespace
  character, hyphen, period, comma, parenthesis and slash removed, is non-empty and all
  digits (whitespace and digit as \<^verbatim>\<open>\s\<close> and \<^verbatim>\<open>str.isdigit\<close> test them). It holds
  for \<open>123-456\<close>, \<open>(021) 111-222\<close> and \<open>42501-5440926-9\<close>.
\<close>

theorem is_number_only_text_meets_spec:
  "is_number_only_text t = spec_number_only t \<and>
   is_number_only_text ''123-456'' \<and>
   is_number_only_text ''(021) 111-222'' \<and>
   is_number_only_text ''42501-5440926-9''"
proof (intro conjI)
  show "is_number_only_text t = spec_number_only t"
    by (auto simp: is_number_only_text_def spec_number_only_def re_sub_class_filter
        removed_char_spec isdigit_def Let_def)
  show "is_number_only_text ''123-456''"
    by (simp add: text_defs)
  show "is_number_only_text ''(021) 111-222''"
    by (simp add: text_defs)
  show "is_number_only_text ''42501-5440926-9''"
    by (simp add: text_defs)
qed

theorem is_number_only_text_meets_spec_witness:
  "spec_number_only ''12/05/2024'' \<and> \<not> spec_number_only ''12 May'' \<and>
   \<not> spec_number_only '' - ''"
  using is_number_only_text_meets_spec [of "''12/05/2024''"]
    is_number_only_text_meets_spec [of "''12 May''"]
    is_number_only_text_meets_spec [of "'' - ''"]
  by (simp add: text_defs)

text \<open>
  C5. For every number-only text and every source language code,
  \<open>translate_to_english\<close> returns the text unchanged and calls no translator.
\<close>

theorem number_only_text_is_not_translated:
  "is_number_only_text t \<Longrightarrow> translate_to_english s t source = ([], Inr t)"
  by (simp add: translate_to_english_def comp_defs)

theorem number_only_text_is_not_translated_witness:
  "is_number_only_text ''(021) 111-222'' \<and>
   translate_to_english llm_up ''(021) 111-222'' ''ur'' = ([], Inr ''(021) 111-222'')"
  using number_only_text_is_not_translated
    [where t = "''(021) 111-222''" and s = llm_up and source = "''ur''"]
  by (simp add: text_defs)

text \<open>
  C6. With the LLM configured, \<open>detect_language_with_llm\<close> returns the trimmed,
  lower-cased reply when that code is in the supported mapping or is \<open>ur\<close>; on any other
  reply, and on an exception of the LLM call, it returns what \<open>fallback_detection\<close>
  returns on the same text, and calls the detector for it.
\<close>

theorem llm_reply_is_validated:
  assumes "use_llm s" and "openai_client s = Some c"
  shows "outcome (detect_language_with_llm s t) =
           (case chat_detect c t of
              Inl e \<Rightarrow> outcome (fallback_detection s t)
            | Inr r \<Rightarrow>
                if supported s (lower (strip r)) \<or> lower (strip r) = ''ur''
                then Inr (lower (strip r))
                else outcome (fallback_detection s t)) \<and>
         calls (detect_language_with_llm s t) =
           CallChatDetect t #
           (case chat_detect c t of
              Inl e \<Rightarrow> calls (fallback_detection s t)
            | Inr r \<Rightarrow>
                if supported s (lower (strip r)) \<or> lower (strip r) = ''ur''
                then []
                else calls (fallback_detection s t))"
  using assms
  by (simp add: detect_language_with_llm_def fallback_detection_eq comp_defs Let_def
           split: sum.splits)

text \<open>
  The reply \<open>UR\<close> between blanks is accepted as \<open>ur\<close>; the reply \<open>xx\<close> and a failed
  request both give the fallback detector's \<open>fr\<close>.
\<close>

theorem llm_reply_is_validated_witness:
  "use_llm llm_up \<and> openai_client llm_up = Some answering_client \<and>
   use_llm llm_down \<and> openai_client llm_down = Some failing_client \<and>
   chat_detect answering_client ''mera balance kya hai'' = Inr '' UR '' \<and>
   detect_language_with_llm llm_up ''mera balance kya hai'' =
     ([CallChatDetect ''mera balance kya hai''], Inr ''ur'') \<and>
   chat_detect answering_client ''bonjour tout le monde'' = Inr ''xx'' \<and>
   \<not> supported llm_up ''xx'' \<and>
   detect_language_with_llm llm_up ''bonjour tout le monde'' =
     ([CallChatDetect ''bonjour tout le monde'', CallDetect ''bonjour tout le monde''],
      Inr ''fr'') \<and>
   isl (chat_detect failing_client ''bonjour tout le monde'') \<and>
   detect_language_with_llm llm_down ''bonjour tout le monde'' =
     ([CallChatDetect ''bonjour tout le monde'', CallDetect ''bonjour tout le monde''],
      Inr ''fr'')"
  using llm_reply_is_validated
      [where s = llm_up and c = answering_client and t = "''mera balance kya hai''"]
    llm_reply_is_validated
      [where s = llm_up and c = answering_client and t = "''bonjour tout le monde''"]
    llm_reply_is_validated
      [where s = llm_down and c = failing_client and t = "''bonjour tout le monde''"]
  by (simp add: llm_up_def llm_down_def answering_client_def failing_client_def
      fallback_detection_eq supported_def example_languages_def text_defs char_of_eq_iff
      calls_def outcome_def prod_eq_iff)

text \<open>
  C7. \<open>translate_with_google\<close> never raises: it makes the one external call and returns
  the translated text when the call succeeds, the input text when the call raises.
\<close>

theorem translate_with_google_never_raises:
  "translate_with_google s t src dst =
     ([CallTranslate t src dst],
      case translator s t src dst of Inl e \<Rightarrow> Inr t | Inr translated \<Rightarrow> Inr translated)"
  by (simp add: translate_with_google_def comp_defs split: sum.splits)

text \<open>
  C8. With \<open>en\<close> as source, respectively target, \<open>translate_to_english\<close> and
  \<open>translate_from_english\<close> return the text itself and make no external call.
\<close>

theorem english_is_identity:
  "translate_to_english s t ''en'' = ([], Inr t) \<and>
   translate_from_english s t ''en'' = ([], Inr t)"
  by (simp add: translate_to_english_def translate_from_english_def comp_defs)

text \<open>
  C9. For a number-only text of trimmed length at least 3, a non-empty sender identifier
  and an accessor that answers, \<open>detect_language_smart\<close> calls the accessor and returns
  its value as it is, with no check against the supported mapping.
\<close>

theorem number_only_returns_last_language:
  assumes "3 \<le> length (strip t)" and "is_number_only_text t"
    and "sid \<noteq> []" and "g sid = Inr v"
  shows "detect_language_smart s t (Some sid) (Some g) = ([CallLastLanguage sid], Inr v)"
  using assms
  by (simp add: detect_language_smart_def detect_language_smart_body_def session_context_def
      comp_defs)

text \<open>An accessor answering the unsupported code \<open>xx\<close>: that code reaches the caller.\<close>

theorem number_only_returns_last_language_witness:
  "3 \<le> length (strip ''42501-5440926-9'') \<and> is_number_only_text ''42501-5440926-9'' \<and>
   ''user-17'' \<noteq> [] \<and> unsupported_accessor ''user-17'' = Inr ''xx'' \<and>
   \<not> supported llm_up ''xx'' \<and> ''xx'' \<noteq> ''ur'' \<and>
   detect_language_smart llm_up ''42501-5440926-9'' (Some ''user-17'')
       (Some unsupported_accessor)
     = ([CallLastLanguage ''user-17''], Inr ''xx'')"
  using number_only_returns_last_language
    [where s = llm_up and t = "''42501-5440926-9''" and sid = "''user-17''"
       and g = unsupported_accessor and v = "''xx''"]
  by (simp add: text_defs unsupported_accessor_def supported_def llm_up_def
      example_languages_def)

text \<open>
  C10. \<open>translate_from_english\<close> has no number-only skip: for a number-only text and a
  target other than \<open>en\<close> it is \<open>translate_with_llm\<close> when \<open>use_llm\<close> holds and the
  target is \<open>ur\<close>, and \<open>translate_with_google\<close> otherwise, and its first call is the
  LLM request (client configured, target \<open>ur\<close>) or the translation API;
  \<open>translate_to_english\<close> on the same arguments returns the text without any call.
\<close>

theorem from_english_translates_number_only_text:
  assumes "is_number_only_text t" and "tgt \<noteq> ''en''"
  shows "translate_from_english s t tgt =
           (if use_llm s \<and> tgt = ''ur'' then translate_with_llm s t ''en'' tgt
            else translate_with_google s t ''en'' tgt) \<and>
         (\<exists>rest. calls (translate_from_english s t tgt) =
            (if use_llm s \<and> tgt = ''ur'' \<and> openai_client s \<noteq> None
             then CallChatTranslate t ''en'' tgt else CallTranslate t ''en'' tgt) # rest) \<and>
         translate_to_english s t tgt = ([], Inr t)"
  using assms
  by (auto simp: translate_from_english_def translate_to_english_def translate_with_llm_def
      translate_with_google_eq comp_defs split: sum.splits option.splits)

theorem from_english_translates_number_only_text_witness:
  "is_number_only_text ''123'' \<and> ''fr'' \<noteq> ''en'' \<and>
   translate_from_english fallback_only ''123'' ''fr'' =
     ([CallTranslate ''123'' ''en'' ''fr''], Inr ''cent vingt-trois'') \<and>
   translate_to_english fallback_only ''123'' ''fr'' = ([], Inr ''123'')"
  using from_english_translates_number_only_text
    [where s = fallback_only and t = "''123''" and tgt = "''fr''"]
  by (simp add: text_defs fallback_only_def translate_with_google_eq)

end
